theory Spec2Isabelle
  imports Main "HOL-Library.Sublist" "HOL-Library.AList"
begin

section \<open>Shared utilities of the Kroger MCP tools (\<^verbatim>\<open>kroger_mcp/tools/shared.py\<close>)\<close>

text \<open>
  The module is Python with two kinds of effect: calls into collaborators (the process
  environment, the \<^verbatim>\<open>kroger_api\<close> library, the file system, the \<^verbatim>\<open>json\<close> module) and
  module-level variables that cache a client. This development covers the environment
  check, the user client (\<^verbatim>\<open>get_authenticated_client\<close>) and the preference store; the
  client-credentials client and the formatting helpers are left out. The embedding
  passes the state explicitly, returns every
  exception as a value (\<open>Inl\<close>), and takes the collaborators as a record of operations on
  an arbitrary world \<open>'w\<close>, so that a theorem about the module holds whatever the
  collaborators do. A concrete world (an in-memory file system with scripted failures,
  a scripted \<^verbatim>\<open>kroger_api\<close>) instantiates the records where a property depends on what
  the collaborators do, and for the concrete runs.
\<close>

subsection \<open>Exceptions\<close>

text \<open>
  An exception is its class and the text \<^verbatim>\<open>str(e)\<close> gives. Classes are kept up to what
  the handlers of the module tell apart: \<open>OSError\<close> stands for \<^verbatim>\<open>OSError\<close> (of which
  \<^verbatim>\<open>IOError\<close> is an alias) and all its subclasses, \<open>JSONDecodeError\<close> for
  \<^verbatim>\<open>json.JSONDecodeError\<close>, \<open>Exception\<close> for a direct instance of \<^verbatim>\<open>Exception\<close>.
  Every class here derives from \<^verbatim>\<open>Exception\<close>: interrupts and interpreter exits
  (\<^verbatim>\<open>BaseException\<close> only) are outside the model.
\<close>

datatype exn_class =
    Exception | ValueError | JSONDecodeError | UnicodeDecodeError | OSError
  | UnicodeEncodeError | TypeError | AttributeError | UnboundLocalError

datatype exn = Exn (cls: exn_class) (msg: string)

text \<open>\<^verbatim>\<open>needle in haystack\<close> on two strings is Python's substring test.\<close>

definition py_in :: "string \<Rightarrow> string \<Rightarrow> bool" where
  "py_in needle haystack = sublist needle haystack"

subsection \<open>Python values\<close>

text \<open>
  The values \<^verbatim>\<open>json.loads\<close> can return, and so the values a preferences record or a
  token record holds. A \<^verbatim>\<open>dict\<close> is an association list in insertion order with
  distinct keys. Numbers are integers (floating point is outside the model) and a
  \<^verbatim>\<open>str\<close> is a \<open>string\<close>.
\<close>

datatype pyval =
    PNone | PBool bool | PInt int | PStr string
  | PList "pyval list" | PDict "(string \<times> pyval) list"

text \<open>The type names Python prints in its messages, and a name in single quotes.\<close>

fun type_name :: "pyval \<Rightarrow> string" where
  "type_name PNone = ''NoneType''"
| "type_name (PBool b) = ''bool''"
| "type_name (PInt i) = ''int''"
| "type_name (PStr s) = ''str''"
| "type_name (PList l) = ''list''"
| "type_name (PDict d) = ''dict''"

definition quoted :: "string \<Rightarrow> string" where
  "quoted s = [CHR 0x27] @ s @ [CHR 0x27]"

text \<open>\<^verbatim>\<open>d.get(k)\<close>: the value, \<^verbatim>\<open>None\<close> for a missing key; only a dict has the method.\<close>

definition py_get :: "pyval \<Rightarrow> string \<Rightarrow> exn + pyval" where
  "py_get d k =
     (case d of
        PDict kvs \<Rightarrow> Inr (case map_of kvs k of None \<Rightarrow> PNone | Some v \<Rightarrow> v)
      | _ \<Rightarrow> Inl (Exn AttributeError
                 (quoted (type_name d) @ '' object has no attribute '' @ quoted ''get'')))"

text \<open>
  \<^verbatim>\<open>d[k] = v\<close> with a string key: a dict keeps the position of a key it has and appends
  a new one; every other value of the model raises \<^verbatim>\<open>TypeError\<close>.
\<close>

definition py_setitem :: "pyval \<Rightarrow> string \<Rightarrow> pyval \<Rightarrow> exn + pyval" where
  "py_setitem d k v =
     (case d of
        PDict kvs \<Rightarrow> Inr (PDict (AList.update k v kvs))
      | PList l \<Rightarrow> Inl (Exn TypeError ''list indices must be integers or slices, not str'')
      | _ \<Rightarrow> Inl (Exn TypeError
                 (quoted (type_name d) @ '' object does not support item assignment'')))"

text \<open>\<^verbatim>\<open>sep.join(xs)\<close>.\<close>

fun py_join :: "string \<Rightarrow> string list \<Rightarrow> string" where
  "py_join sep [] = []"
| "py_join sep [x] = x"
| "py_join sep (x # y # ys) = x @ sep @ py_join sep (y # ys)"

text \<open>
  \<^verbatim>\<open>s.strip()\<close>: the characters \<^verbatim>\<open>str.isspace\<close> accepts below code point 256 are tab to
  carriage return, the four separators \<^verbatim>\<open>0x1c\<close> to \<^verbatim>\<open>0x1f\<close>, the space, \<^verbatim>\<open>0x85\<close> and
  \<^verbatim>\<open>0xa0\<close>.
\<close>

definition py_isspace :: "char \<Rightarrow> bool" where
  "py_isspace c =
     (let n = of_char c :: nat
      in (9 \<le> n \<and> n \<le> 13) \<or> (28 \<le> n \<and> n \<le> 32) \<or> n = 133 \<or> n = 160)"

definition py_strip :: "string \<Rightarrow> string" where
  "py_strip s = rev (dropWhile py_isspace (rev (dropWhile py_isspace s)))"

subsection \<open>Environment validation\<close>

text \<open>
  \<^verbatim>\<open>os.getenv(var)\<close> is \<^verbatim>\<open>None\<close> or a string; \<^verbatim>\<open>not os.getenv(var)\<close> holds for \<^verbatim>\<open>None\<close> and
  for the empty string.
\<close>

type_synonym environ = "string \<Rightarrow> string option"

definition env_falsy :: "string option \<Rightarrow> bool" where
  "env_falsy v = (case v of None \<Rightarrow> True | Some s \<Rightarrow> s = [])"

text \<open>The loop of \<^verbatim>\<open>load_and_validate_env\<close>, with \<^verbatim>\<open>missing_vars\<close> as the accumulator.\<close>

fun collect_missing :: "environ \<Rightarrow> string list \<Rightarrow> string list \<Rightarrow> string list" where
  "collect_missing env [] missing_vars = missing_vars"
| "collect_missing env (var # rest) missing_vars =
     collect_missing env rest
       (if env_falsy (env var) then missing_vars @ [var] else missing_vars)"

definition missing_env_message :: "string list \<Rightarrow> string" where
  "missing_env_message missing_vars =
     ''Missing required environment variables: '' @ py_join '', '' missing_vars"

definition load_and_validate_env :: "environ \<Rightarrow> string list \<Rightarrow> exn + unit" where
  "load_and_validate_env env required_vars =
     (let missing_vars = collect_missing env required_vars []
      in if missing_vars \<noteq> []
         then Inl (Exn ValueError (missing_env_message missing_vars))
         else Inr ())"

subsection \<open>The user session\<close>

text \<open>
  What \<^verbatim>\<open>get_authenticated_client\<close> calls: \<^verbatim>\<open>os.getenv\<close>, \<^verbatim>\<open>kroger_api.auth.load_token\<close>
  (a token record, a dict, or \<^verbatim>\<open>None\<close>), the constructor \<^verbatim>\<open>KrogerAPI()\<close>, the two
  attribute assignments that bind a token record and its file to a handle, and the
  handle's \<^verbatim>\<open>test_current_token()\<close> and \<^verbatim>\<open>authorization.refresh_token(...)\<close>. A handle
  \<open>'h\<close> is the identity of a client object.
\<close>

type_synonym token_info = "(string \<times> pyval) list"

record ('w, 'h) kroger_api =
  os_getenv :: "'w \<Rightarrow> environ"
  load_token :: "string \<Rightarrow> 'w \<Rightarrow> (exn + token_info option) \<times> 'w"
  KrogerAPI :: "'w \<Rightarrow> (exn + 'h) \<times> 'w"
  bind_token :: "'h \<Rightarrow> token_info \<Rightarrow> string \<Rightarrow> 'w \<Rightarrow> 'w"
  test_current_token :: "'h \<Rightarrow> 'w \<Rightarrow> (exn + bool) \<times> 'w"
  refresh_token :: "'h \<Rightarrow> pyval \<Rightarrow> 'w \<Rightarrow> (exn + unit) \<times> 'w"

text \<open>Every call to a collaborator is recorded with its outcome, in call order.\<close>

datatype 'h event =
    Getenv string "string option"
  | LoadToken string "exn + token_info option"
  | Construct "exn + 'h"
  | TestToken 'h "exn + bool"
  | RefreshToken 'h pyval "exn + unit"

text \<open>
  The state: the world of the collaborators, the module variable
  \<^verbatim>\<open>_authenticated_client\<close> and the record of calls.
\<close>

record ('w, 'h) session =
  world :: 'w
  authenticated_client :: "'h option"
  trace :: "'h event list"

definition validate_env ::
  "('w, 'h) kroger_api \<Rightarrow> string list \<Rightarrow> ('w, 'h) session \<Rightarrow> (exn + unit) \<times> ('w, 'h) session" where
  "validate_env api required_vars s =
     (let env = os_getenv api (world s)
      in (load_and_validate_env env required_vars,
          s\<lparr>trace := trace s @ map (\<lambda>var. Getenv var (env var)) required_vars\<rparr>))"

definition call_load_token ::
  "('w, 'h) kroger_api \<Rightarrow> string \<Rightarrow> ('w, 'h) session
     \<Rightarrow> (exn + token_info option) \<times> ('w, 'h) session" where
  "call_load_token api token_file s =
     (case load_token api token_file (world s) of
        (r, w) \<Rightarrow> (r, s\<lparr>world := w, trace := trace s @ [LoadToken token_file r]\<rparr>))"

definition call_KrogerAPI ::
  "('w, 'h) kroger_api \<Rightarrow> ('w, 'h) session \<Rightarrow> (exn + 'h) \<times> ('w, 'h) session" where
  "call_KrogerAPI api s =
     (case KrogerAPI api (world s) of
        (r, w) \<Rightarrow> (r, s\<lparr>world := w, trace := trace s @ [Construct r]\<rparr>))"

definition call_test_current_token ::
  "('w, 'h) kroger_api \<Rightarrow> 'h \<Rightarrow> ('w, 'h) session \<Rightarrow> (exn + bool) \<times> ('w, 'h) session" where
  "call_test_current_token api h s =
     (case test_current_token api h (world s) of
        (r, w) \<Rightarrow> (r, s\<lparr>world := w, trace := trace s @ [TestToken h r]\<rparr>))"

definition call_refresh_token ::
  "('w, 'h) kroger_api \<Rightarrow> 'h \<Rightarrow> pyval \<Rightarrow> ('w, 'h) session \<Rightarrow> (exn + unit) \<times> ('w, 'h) session" where
  "call_refresh_token api h rt s =
     (case refresh_token api h rt (world s) of
        (r, w) \<Rightarrow> (r, s\<lparr>world := w, trace := trace s @ [RefreshToken h rt r]\<rparr>))"

definition TOKEN_FILE :: string where
  "TOKEN_FILE = ''.kroger_token_user.json''"

definition user_env_vars :: "string list" where
  "user_env_vars = [''KROGER_CLIENT_ID'', ''KROGER_CLIENT_SECRET'', ''KROGER_REDIRECT_URI'']"

text \<open>The exception of lines 92 to 95: the caller has to run the OAuth flow.\<close>

definition authentication_required :: exn where
  "authentication_required =
     Exn Exception (''Authentication required. Please use the start_authentication tool ''
       @ ''to begin the OAuth flow, then complete it with the complete_authentication tool.'')"

text \<open>
  The \<^verbatim>\<open>try\<close> block of \<^verbatim>\<open>get_authenticated_client\<close> (lines 64 to 95). The refresh and the
  validity check after it stand in an inner \<^verbatim>\<open>try\<close> whose handler clears the module
  variable and falls through to the final \<^verbatim>\<open>raise\<close>; a refreshed token that is still
  invalid, and a token record with no refresh credential, fall through with the module
  variable still set.
\<close>

definition recover_user_client ::
  "('w, 'h) kroger_api \<Rightarrow> ('w, 'h) session \<Rightarrow> (exn + 'h) \<times> ('w, 'h) session" where
  "recover_user_client api s0 =
     (case validate_env api user_env_vars s0 of
        (Inl e, s1) \<Rightarrow> (Inl e, s1)
      | (Inr _, s1) \<Rightarrow>
     (case call_load_token api TOKEN_FILE s1 of
        (Inl e, s2) \<Rightarrow> (Inl e, s2)
      | (Inr None, s2) \<Rightarrow> (Inl authentication_required, s2)
      | (Inr (Some token_info), s2) \<Rightarrow>
          if token_info = [] then (Inl authentication_required, s2)
          else
     (case call_KrogerAPI api s2 of
        (Inl e, s3) \<Rightarrow> (Inl e, s3)
      | (Inr h, s3) \<Rightarrow>
          let s4 = s3\<lparr>authenticated_client := Some h,
                     world := bind_token api h token_info TOKEN_FILE (world s3)\<rparr>
          in
     (case call_test_current_token api h s4 of
        (Inl e, s5) \<Rightarrow> (Inl e, s5)
      | (Inr valid, s5) \<Rightarrow>
          if valid then (Inr h, s5)
          else
     (case map_of token_info ''refresh_token'' of
        None \<Rightarrow> (Inl authentication_required, s5)
      | Some rt \<Rightarrow>
     (case call_refresh_token api h rt s5 of
        (Inl e, s6) \<Rightarrow> (Inl authentication_required, s6\<lparr>authenticated_client := None\<rparr>)
      | (Inr _, s6) \<Rightarrow>
     (case call_test_current_token api h s6 of
        (Inl e, s7) \<Rightarrow> (Inl authentication_required, s7\<lparr>authenticated_client := None\<rparr>)
      | (Inr valid', s7) \<Rightarrow>
          if valid' then (Inr h, s7) else (Inl authentication_required, s7))))))))"

text \<open>
  The handler of lines 96 to 102: an exception whose text contains
  \<^verbatim>\<open>Authentication required\<close> is raised again as it is, any other is replaced by a new
  \<^verbatim>\<open>Exception\<close> whose text quotes it.
\<close>

definition reraise_or_wrap :: "exn \<Rightarrow> exn" where
  "reraise_or_wrap e =
     (if py_in ''Authentication required'' (msg e) then e
      else Exn Exception (''Authentication failed: '' @ msg e))"

definition try_recover ::
  "('w, 'h) kroger_api \<Rightarrow> ('w, 'h) session \<Rightarrow> (exn + 'h) \<times> ('w, 'h) session" where
  "try_recover api s =
     (case recover_user_client api s of
        (Inl e, s') \<Rightarrow> (Inl (reraise_or_wrap e), s')
      | (Inr h, s') \<Rightarrow> (Inr h, s'))"

text \<open>
  \<^verbatim>\<open>get_authenticated_client\<close>. The validity check of a cached handle (line 56) stands
  before the \<^verbatim>\<open>try\<close>: an exception it raises leaves the function as it is.
\<close>

definition get_authenticated_client ::
  "('w, 'h) kroger_api \<Rightarrow> ('w, 'h) session \<Rightarrow> (exn + 'h) \<times> ('w, 'h) session" where
  "get_authenticated_client api s =
     (case authenticated_client s of
        None \<Rightarrow> try_recover api (s\<lparr>authenticated_client := None\<rparr>)
      | Some h \<Rightarrow>
          (case call_test_current_token api h s of
             (Inl e, s1) \<Rightarrow> (Inl e, s1)
           | (Inr valid, s1) \<Rightarrow>
               if valid then (Inr h, s1)
               else try_recover api (s1\<lparr>authenticated_client := None\<rparr>)))"

definition invalidate_authenticated_client :: "('w, 'h) session \<Rightarrow> ('w, 'h) session" where
  "invalidate_authenticated_client s = s\<lparr>authenticated_client := None\<rparr>"

text \<open>
  The state in which the recovery of \<^verbatim>\<open>get_authenticated_client\<close> starts, when the call
  reaches it: no handle is cached, or the cached handle's token is no longer valid.
\<close>

definition recovery_start ::
  "('w, 'h) kroger_api \<Rightarrow> ('w, 'h) session \<Rightarrow> ('w, 'h) session option" where
  "recovery_start api s =
     (case authenticated_client s of
        None \<Rightarrow> Some (s\<lparr>authenticated_client := None\<rparr>)
      | Some h \<Rightarrow>
          (case call_test_current_token api h s of
             (Inl e, s1) \<Rightarrow> None
           | (Inr valid, s1) \<Rightarrow>
               if valid then None else Some (s1\<lparr>authenticated_client := None\<rparr>)))"

text \<open>The calls a run made: what it appended to the record of calls.\<close>

definition new_events :: "('w, 'h) session \<Rightarrow> ('w, 'h) session \<Rightarrow> 'h event list" where
  "new_events s s' = drop (length (trace s)) (trace s')"

subsection \<open>A scripted library, for concrete runs\<close>

text \<open>
  A world in which the outcome of every call is written down beforehand: the
  environment, what \<^verbatim>\<open>load_token\<close> returns, whether the constructor and the refresh
  fail, and the outcomes of the successive validity checks (a check beyond the script
  finds the token invalid). Handles are numbered in the order of construction.
\<close>

record script =
  environment :: "(string \<times> string) list"
  token_on_disk :: "exn + token_info option"
  construct_failure :: "exn option"
  validity_checks :: "(exn + bool) list"
  refresh_failure :: "exn option"
  next_handle :: nat

definition scripted_api :: "(script, nat) kroger_api" where
  "scripted_api =
     \<lparr>os_getenv = (\<lambda>w. map_of (environment w)),
      load_token = (\<lambda>token_file w. (token_on_disk w, w)),
      KrogerAPI = (\<lambda>w. case construct_failure w of
                           Some e \<Rightarrow> (Inl e, w)
                         | None \<Rightarrow> (Inr (next_handle w), w\<lparr>next_handle := Suc (next_handle w)\<rparr>)),
      bind_token = (\<lambda>h token_info token_file w. w),
      test_current_token = (\<lambda>h w. case validity_checks w of
                                     [] \<Rightarrow> (Inr False, w)
                                   | r # rs \<Rightarrow> (r, w\<lparr>validity_checks := rs\<rparr>)),
      refresh_token = (\<lambda>h rt w. case refresh_failure w of
                                   Some e \<Rightarrow> (Inl e, w)
                                 | None \<Rightarrow> (Inr (), w))\<rparr>"

definition full_environment :: "(string \<times> string) list" where
  "full_environment =
     [(''KROGER_CLIENT_ID'', ''id''), (''KROGER_CLIENT_SECRET'', ''secret''),
      (''KROGER_REDIRECT_URI'', ''http://localhost:8000/callback'')]"

definition fresh_session :: "script \<Rightarrow> (script, nat) session" where
  "fresh_session w = \<lparr>world = w, authenticated_client = None, trace = []\<rparr>"

subsection \<open>The preference store\<close>

text \<open>
  What the preference functions call: \<^verbatim>\<open>os.path.expanduser\<close> and \<^verbatim>\<open>os.path.dirname\<close>,
  \<^verbatim>\<open>os.name\<close>, \<^verbatim>\<open>os.makedirs(..., exist_ok=True)\<close>, \<^verbatim>\<open>os.path.exists\<close>, \<^verbatim>\<open>open\<close> for
  reading and for writing (UTF-8), the methods of the file object \<open>'f\<close> it returns,
  \<^verbatim>\<open>json.dump(..., indent=2, ensure_ascii=False)\<close>, \<^verbatim>\<open>os.fsync\<close>, \<^verbatim>\<open>os.remove\<close>,
  \<^verbatim>\<open>os.rename\<close>, \<^verbatim>\<open>json.loads\<close>, \<^verbatim>\<open>print\<close> (which raises when the standard output
  cannot be written), and the text Python prints for a list, a dict or a number.
\<close>

record ('w, 'f) os_api =
  os_path_expanduser :: "string \<Rightarrow> string"
  os_path_dirname :: "string \<Rightarrow> string"
  os_name :: string
  os_makedirs :: "string \<Rightarrow> 'w \<Rightarrow> (exn + unit) \<times> 'w"
  os_path_exists :: "string \<Rightarrow> 'w \<Rightarrow> bool"
  open_r :: "string \<Rightarrow> 'w \<Rightarrow> (exn + 'f) \<times> 'w"
  open_w :: "string \<Rightarrow> 'w \<Rightarrow> (exn + 'f) \<times> 'w"
  f_read :: "'f \<Rightarrow> 'w \<Rightarrow> (exn + string) \<times> 'w"
  f_flush :: "'f \<Rightarrow> 'w \<Rightarrow> (exn + unit) \<times> 'w"
  f_close :: "'f \<Rightarrow> 'w \<Rightarrow> (exn + unit) \<times> 'w"
  json_dump :: "pyval \<Rightarrow> 'f \<Rightarrow> 'w \<Rightarrow> (exn + unit) \<times> 'w"
  os_fsync :: "'f \<Rightarrow> 'w \<Rightarrow> (exn + unit) \<times> 'w"
  os_remove :: "string \<Rightarrow> 'w \<Rightarrow> (exn + unit) \<times> 'w"
  os_rename :: "string \<Rightarrow> string \<Rightarrow> 'w \<Rightarrow> (exn + unit) \<times> 'w"
  json_loads :: "string \<Rightarrow> exn + pyval"
  py_repr :: "pyval \<Rightarrow> string"
  py_print :: "string \<Rightarrow> 'w \<Rightarrow> (exn + unit) \<times> 'w"

text \<open>The calls made, in order; \<open>Print\<close> is a call of \<^verbatim>\<open>print\<close> with the line it is given.\<close>

datatype os_event =
    Makedirs string | Exists string | OpenRead string | OpenWrite string
  | Read | Flush | Close | JsonDump pyval | Fsync
  | Remove string | Rename string string | Print string

record 'w store =
  fs :: 'w
  log :: "os_event list"

definition logged :: "os_event \<Rightarrow> 'w store \<Rightarrow> 'w store" where
  "logged ev s = s\<lparr>log := log s @ [ev]\<rparr>"

definition perform ::
  "os_event \<Rightarrow> ('w \<Rightarrow> (exn + 'a) \<times> 'w) \<Rightarrow> 'w store \<Rightarrow> (exn + 'a) \<times> 'w store" where
  "perform ev op s = (case op (fs s) of (r, w) \<Rightarrow> (r, s\<lparr>fs := w, log := log s @ [ev]\<rparr>))"

text \<open>\<^verbatim>\<open>print(line)\<close>: a call like the others, with an exception of its own when it fails.\<close>

definition print_line ::
  "('w, 'f) os_api \<Rightarrow> string \<Rightarrow> 'w store \<Rightarrow> (exn + unit) \<times> 'w store" where
  "print_line os line s = perform (Print line) (py_print os line) s"

definition path_exists :: "('w, 'f) os_api \<Rightarrow> string \<Rightarrow> 'w store \<Rightarrow> bool \<times> 'w store" where
  "path_exists os path s = (os_path_exists os path (fs s), logged (Exists path) s)"

definition PREFERENCES_FILE :: "('w, 'f) os_api \<Rightarrow> string" where
  "PREFERENCES_FILE os = os_path_expanduser os ''~/.kroger_mcp_preferences.json''"

definition default_prefs :: pyval where
  "default_prefs = PDict [(''preferred_location_id'', PNone)]"

text \<open>\<^verbatim>\<open>str(v)\<close>, as an f-string formats a value.\<close>

definition py_str :: "('w, 'f) os_api \<Rightarrow> pyval \<Rightarrow> string" where
  "py_str os v =
     (case v of
        PNone \<Rightarrow> ''None''
      | PStr s \<Rightarrow> s
      | PBool b \<Rightarrow> (if b then ''True'' else ''False'')
      | _ \<Rightarrow> py_repr os v)"

text \<open>
  Leaving a \<^verbatim>\<open>with open(...) as f\<close> block closes the file, on a normal exit and on an
  exception; an exception of \<^verbatim>\<open>close\<close> replaces the outcome of the block.
\<close>

definition with_exit ::
  "('w, 'f) os_api \<Rightarrow> 'f \<Rightarrow> (exn + 'a) \<times> 'w store \<Rightarrow> (exn + 'a) \<times> 'w store" where
  "with_exit os f body =
     (case body of
        (r, s) \<Rightarrow>
          (case perform Close (f_close os f) s of
             (Inl e, s') \<Rightarrow> (Inl e, s')
           | (Inr _, s') \<Rightarrow> (r, s')))"

text \<open>Lines 154 to 157: the temporary file is written, flushed and synced.\<close>

definition write_temp ::
  "('w, 'f) os_api \<Rightarrow> string \<Rightarrow> pyval \<Rightarrow> 'w store \<Rightarrow> (exn + unit) \<times> 'w store" where
  "write_temp os temp_file preferences s0 =
     (case perform (OpenWrite temp_file) (open_w os temp_file) s0 of
        (Inl e, s1) \<Rightarrow> (Inl e, s1)
      | (Inr f, s1) \<Rightarrow>
          with_exit os f
            (case perform (JsonDump preferences) (json_dump os preferences f) s1 of
               (Inl e, s2) \<Rightarrow> (Inl e, s2)
             | (Inr _, s2) \<Rightarrow>
            (case perform Flush (f_flush os f) s2 of
               (Inl e, s3) \<Rightarrow> (Inl e, s3)
             | (Inr _, s3) \<Rightarrow> perform Fsync (os_fsync os f) s3)))"

text \<open>Lines 160 to 162: on Windows the target is removed before the rename.\<close>

definition remove_target_on_windows ::
  "('w, 'f) os_api \<Rightarrow> 'w store \<Rightarrow> (exn + unit) \<times> 'w store" where
  "remove_target_on_windows os s0 =
     (if os_name os = ''nt'' then
        (case path_exists os (PREFERENCES_FILE os) s0 of
           (present, s1) \<Rightarrow>
             if present
             then perform (Remove (PREFERENCES_FILE os)) (os_remove os (PREFERENCES_FILE os)) s1
             else (Inr (), s1))
      else (Inr (), s0))"

text \<open>
  The \<^verbatim>\<open>try\<close> block of \<^verbatim>\<open>_save_preferences\<close> (lines 149 to 165). A failure comes with
  the value of the local variable \<^verbatim>\<open>temp_file\<close> at that point: \<open>None\<close> while line 153
  has not assigned it. The \<^verbatim>\<open>print\<close> of line 165 stands inside the block, so its
  exception goes to the handler like any other.
\<close>

definition save_body ::
  "('w, 'f) os_api \<Rightarrow> pyval \<Rightarrow> 'w store \<Rightarrow> (exn \<times> string option + unit) \<times> 'w store" where
  "save_body os preferences s0 =
     (case perform (Makedirs (os_path_dirname os (PREFERENCES_FILE os)))
             (os_makedirs os (os_path_dirname os (PREFERENCES_FILE os))) s0 of
        (Inl e, s1) \<Rightarrow> (Inl (e, None), s1)
      | (Inr _, s1) \<Rightarrow>
          let temp_file = PREFERENCES_FILE os @ ''.tmp'' in
     (case write_temp os temp_file preferences s1 of
        (Inl e, s2) \<Rightarrow> (Inl (e, Some temp_file), s2)
      | (Inr _, s2) \<Rightarrow>
     (case remove_target_on_windows os s2 of
        (Inl e, s3) \<Rightarrow> (Inl (e, Some temp_file), s3)
      | (Inr _, s3) \<Rightarrow>
     (case perform (Rename temp_file (PREFERENCES_FILE os))
             (os_rename os temp_file (PREFERENCES_FILE os)) s3 of
        (Inl e, s4) \<Rightarrow> (Inl (e, Some temp_file), s4)
      | (Inr _, s4) \<Rightarrow>
     (case print_line os (''Preferences saved successfully to '' @ PREFERENCES_FILE os) s4 of
        (Inl e, s5) \<Rightarrow> (Inl (e, Some temp_file), s5)
      | (Inr _, s5) \<Rightarrow> (Inr (), s5))))))"

text \<open>What reading the local variable \<^verbatim>\<open>temp_file\<close> raises while it is unassigned.\<close>

definition unbound_temp_file :: exn where
  "unbound_temp_file =
     Exn UnboundLocalError
       (''cannot access local variable '' @ quoted ''temp_file''
          @ '' where it is not associated with a value'')"

text \<open>
  The handler of \<^verbatim>\<open>_save_preferences\<close> (lines 166 to 174): it prints, reads \<^verbatim>\<open>temp_file\<close>
  to remove a temporary file that exists (an exception of the removal is dropped), and
  raises the exception again. An exception of its \<^verbatim>\<open>print\<close> leaves the function in place
  of the one handled.
\<close>

definition save_handler ::
  "('w, 'f) os_api \<Rightarrow> exn \<Rightarrow> string option \<Rightarrow> 'w store \<Rightarrow> (exn + unit) \<times> 'w store" where
  "save_handler os e temp s0 =
     (case print_line os (''Error: Could not save preferences to '' @ PREFERENCES_FILE os
                            @ '': '' @ msg e) s0 of
        (Inl print_error, s1) \<Rightarrow> (Inl print_error, s1)
      | (Inr _, s1) \<Rightarrow>
          (case temp of
             None \<Rightarrow> (Inl unbound_temp_file, s1)
           | Some temp_file \<Rightarrow>
               (case path_exists os temp_file s1 of
                  (present, s2) \<Rightarrow>
                    if present
                    then (case perform (Remove temp_file) (os_remove os temp_file) s2 of
                            (_, s3) \<Rightarrow> (Inl e, s3))
                    else (Inl e, s2))))"

definition save_preferences ::
  "('w, 'f) os_api \<Rightarrow> pyval \<Rightarrow> 'w store \<Rightarrow> (exn + unit) \<times> 'w store" where
  "save_preferences os preferences s =
     (case save_body os preferences s of
        (Inl (e, temp), s') \<Rightarrow> save_handler os e temp s'
      | (Inr _, s') \<Rightarrow> (Inr (), s'))"

text \<open>The \<^verbatim>\<open>try\<close> block of \<^verbatim>\<open>_load_preferences\<close> (lines 117 to 132).\<close>

definition load_body ::
  "('w, 'f) os_api \<Rightarrow> 'w store \<Rightarrow> (exn + pyval) \<times> 'w store" where
  "load_body os s0 =
     (case perform (Makedirs (os_path_dirname os (PREFERENCES_FILE os)))
             (os_makedirs os (os_path_dirname os (PREFERENCES_FILE os))) s0 of
        (Inl e, s1) \<Rightarrow> (Inl e, s1)
      | (Inr _, s1) \<Rightarrow>
     (case path_exists os (PREFERENCES_FILE os) s1 of
        (present, s2) \<Rightarrow>
          if present then
     (case perform (OpenRead (PREFERENCES_FILE os)) (open_r os (PREFERENCES_FILE os)) s2 of
        (Inl e, s3) \<Rightarrow> (Inl e, s3)
      | (Inr f, s3) \<Rightarrow>
          with_exit os f
            (case perform Read (f_read os f) s3 of
               (Inl e, s4) \<Rightarrow> (Inl e, s4)
             | (Inr text, s4) \<Rightarrow>
                 let content = py_strip text
                 in if content \<noteq> [] then (json_loads os content, s4)
                    else (Inr default_prefs, s4)))
          else
     (case save_preferences os default_prefs s2 of
        (Inl e, s3) \<Rightarrow> (Inl e, s3)
      | (Inr _, s3) \<Rightarrow> (Inr default_prefs, s3))))"

text \<open>
  \<^verbatim>\<open>_load_preferences\<close>: the first handler (lines 133 to 141) takes a
  \<^verbatim>\<open>json.JSONDecodeError\<close> and an \<^verbatim>\<open>IOError\<close>, the second (lines 142 to 144) every
  other exception. The three \<^verbatim>\<open>print\<close> calls stand in the handlers, outside every
  \<^verbatim>\<open>try\<close> block: an exception of one of them leaves the function.
\<close>

definition load_preferences ::
  "('w, 'f) os_api \<Rightarrow> 'w store \<Rightarrow> (exn + pyval) \<times> 'w store" where
  "load_preferences os s =
     (case load_body os s of
        (Inr preferences, s1) \<Rightarrow> (Inr preferences, s1)
      | (Inl e, s1) \<Rightarrow>
          if cls e = JSONDecodeError \<or> cls e = OSError then
            (case print_line os (''Warning: Could not load preferences from ''
                                   @ PREFERENCES_FILE os @ '': '' @ msg e) s1 of
               (Inl print_error, s2) \<Rightarrow> (Inl print_error, s2)
             | (Inr _, s2) \<Rightarrow>
            (case save_preferences os default_prefs s2 of
               (Inl save_error, s3) \<Rightarrow>
                 (case print_line os (''Warning: Could not create default preferences file: ''
                                        @ msg save_error) s3 of
                    (Inl print_error, s4) \<Rightarrow> (Inl print_error, s4)
                  | (Inr _, s4) \<Rightarrow> (Inr default_prefs, s4))
             | (Inr _, s3) \<Rightarrow> (Inr default_prefs, s3)))
          else
            (case print_line os (''Warning: Unexpected error loading preferences: '' @ msg e) s1 of
               (Inl print_error, s2) \<Rightarrow> (Inl print_error, s2)
             | (Inr _, s2) \<Rightarrow> (Inr default_prefs, s2)))"

definition get_preferred_location_id ::
  "('w, 'f) os_api \<Rightarrow> 'w store \<Rightarrow> (exn + pyval) \<times> 'w store" where
  "get_preferred_location_id os s =
     (case load_preferences os s of
        (Inl e, s1) \<Rightarrow> (Inl e, s1)
      | (Inr preferences, s1) \<Rightarrow>
     (case py_get preferences ''preferred_location_id'' of
        Inl e \<Rightarrow> (Inl e, s1)
      | Inr location_id \<Rightarrow>
     (case print_line os (''Retrieved preferred location ID: '' @ py_str os location_id) s1 of
        (Inl e, s2) \<Rightarrow> (Inl e, s2)
      | (Inr _, s2) \<Rightarrow> (Inr location_id, s2))))"

definition verification_failed :: "('w, 'f) os_api \<Rightarrow> string \<Rightarrow> pyval \<Rightarrow> exn" where
  "verification_failed os location_id saved_location_id =
     Exn Exception (''Failed to save preferred location. Expected: '' @ location_id
                      @ '', Got: '' @ py_str os saved_location_id)"

definition set_preferred_location_id ::
  "('w, 'f) os_api \<Rightarrow> string \<Rightarrow> 'w store \<Rightarrow> (exn + unit) \<times> 'w store" where
  "set_preferred_location_id os location_id s =
     (case print_line os (''Setting preferred location ID to: '' @ location_id) s of
        (Inl e, s0) \<Rightarrow> (Inl e, s0)
      | (Inr _, s0) \<Rightarrow>
     (case load_preferences os s0 of
        (Inl e, s1) \<Rightarrow> (Inl e, s1)
      | (Inr preferences, s1) \<Rightarrow>
     (case py_setitem preferences ''preferred_location_id'' (PStr location_id) of
        Inl e \<Rightarrow> (Inl e, s1)
      | Inr preferences' \<Rightarrow>
     (case save_preferences os preferences' s1 of
        (Inl e, s2) \<Rightarrow> (Inl e, s2)
      | (Inr _, s2) \<Rightarrow>
     (case load_preferences os s2 of
        (Inl e, s3) \<Rightarrow> (Inl e, s3)
      | (Inr saved_preferences, s3) \<Rightarrow>
     (case py_get saved_preferences ''preferred_location_id'' of
        Inl e \<Rightarrow> (Inl e, s3)
      | Inr saved_location_id \<Rightarrow>
          if saved_location_id \<noteq> PStr location_id
          then (Inl (verification_failed os location_id saved_location_id), s3)
          else print_line os (''Successfully saved preferred location ID: '' @ location_id)
                 s3))))))"

subsection \<open>An in-memory file system, for concrete runs\<close>

text \<open>
  A disk is the content of every file that exists, and a script of failures: each call
  that can fail takes the next entry of the script and raises the exception it names;
  on \<open>None\<close>, and once the script is used up, the call behaves normally. Directories
  are not kept: \<^verbatim>\<open>os.makedirs\<close> fails only when the script says so. A file object is
  the path it was opened with, \<^verbatim>\<open>json.dump\<close> appends the document to the file, and
  flushing, syncing and closing change nothing. Printing is apart from the script: it
  raises the exception \<open>stdout_error\<close> names, at every call, and succeeds when there is
  none.
\<close>

record disk =
  files :: "string \<Rightarrow> string option"
  faults :: "exn option list"
  stdout_error :: "exn option"

definition scripted :: "(disk \<Rightarrow> (exn + 'a) \<times> disk) \<Rightarrow> disk \<Rightarrow> (exn + 'a) \<times> disk" where
  "scripted op d =
     (case faults d of
        [] \<Rightarrow> op d
      | None # rest \<Rightarrow> op (d\<lparr>faults := rest\<rparr>)
      | Some e # rest \<Rightarrow> (Inl e, d\<lparr>faults := rest\<rparr>))"

definition no_such_file :: "string \<Rightarrow> exn" where
  "no_such_file path = Exn OSError (''[Errno 2] No such file or directory: '' @ quoted path)"

definition file_exists_error :: "string \<Rightarrow> string \<Rightarrow> exn" where
  "file_exists_error src dst =
     Exn OSError (''[WinError 183] Cannot create a file when that file already exists: ''
                    @ quoted src @ '' -> '' @ quoted dst)"

text \<open>\<^verbatim>\<open>posixpath.dirname\<close>.\<close>

definition posix_dirname :: "string \<Rightarrow> string" where
  "posix_dirname p =
     (let head = rev (dropWhile (\<lambda>c. c \<noteq> CHR ''/'') (rev p))
      in if filter (\<lambda>c. c \<noteq> CHR ''/'') head \<noteq> []
         then rev (dropWhile (\<lambda>c. c = CHR ''/'') (rev head))
         else head)"

text \<open>
  The operations over a disk, for a platform name, a home directory and the three
  functions of Python the store leaves open: the text \<^verbatim>\<open>json.dump\<close> writes for a
  value, \<^verbatim>\<open>json.loads\<close>, and \<^verbatim>\<open>repr\<close>.
\<close>

definition memory_os ::
  "string \<Rightarrow> string \<Rightarrow> (pyval \<Rightarrow> string) \<Rightarrow> (string \<Rightarrow> exn + pyval) \<Rightarrow> (pyval \<Rightarrow> string)
     \<Rightarrow> (disk, string) os_api" where
  "memory_os name home dumps loads repr =
     \<lparr>os_path_expanduser = (\<lambda>p. case p of c # rest \<Rightarrow> if c = CHR ''~'' then home @ rest else p
                                      | [] \<Rightarrow> p),
      os_path_dirname = posix_dirname,
      os_name = name,
      os_makedirs = (\<lambda>path. scripted (\<lambda>d. (Inr (), d))),
      os_path_exists = (\<lambda>path d. files d path \<noteq> None),
      open_r = (\<lambda>path. scripted (\<lambda>d. case files d path of
                                          None \<Rightarrow> (Inl (no_such_file path), d)
                                        | Some text \<Rightarrow> (Inr path, d))),
      open_w = (\<lambda>path. scripted (\<lambda>d. (Inr path, d\<lparr>files := (files d)(path \<mapsto> [])\<rparr>))),
      f_read = (\<lambda>f. scripted (\<lambda>d. case files d f of
                                      None \<Rightarrow> (Inl (no_such_file f), d)
                                    | Some text \<Rightarrow> (Inr text, d))),
      f_flush = (\<lambda>f. scripted (\<lambda>d. (Inr (), d))),
      f_close = (\<lambda>f. scripted (\<lambda>d. (Inr (), d))),
      json_dump = (\<lambda>v f. scripted (\<lambda>d. case files d f of
                                          None \<Rightarrow> (Inl (no_such_file f), d)
                                        | Some text \<Rightarrow>
                                            (Inr (), d\<lparr>files := (files d)(f \<mapsto> text @ dumps v)\<rparr>))),
      os_fsync = (\<lambda>f. scripted (\<lambda>d. (Inr (), d))),
      os_remove = (\<lambda>path. scripted (\<lambda>d. case files d path of
                                             None \<Rightarrow> (Inl (no_such_file path), d)
                                           | Some text \<Rightarrow>
                                               (Inr (), d\<lparr>files := (files d)(path := None)\<rparr>))),
      os_rename = (\<lambda>src dst. scripted (\<lambda>d. case files d src of
                    None \<Rightarrow> (Inl (no_such_file src), d)
                  | Some text \<Rightarrow>
                      if name = ''nt'' \<and> files d dst \<noteq> None
                      then (Inl (file_exists_error src dst), d)
                      else (Inr (), d\<lparr>files := (files d)(src := None, dst \<mapsto> text)\<rparr>))),
      json_loads = loads,
      py_repr = repr,
      py_print = (\<lambda>line d. case stdout_error d of
                                None \<Rightarrow> (Inr (), d)
                              | Some e \<Rightarrow> (Inl e, d))\<rparr>"

text \<open>
  A JSON module that knows finitely many documents: it writes a value as the text the
  table gives, and reads back exactly the texts of the table.
\<close>

definition table_dumps :: "(pyval \<times> string) list \<Rightarrow> pyval \<Rightarrow> string" where
  "table_dumps docs v = (case map_of docs v of Some text \<Rightarrow> text | None \<Rightarrow> ''null'')"

definition table_loads :: "(pyval \<times> string) list \<Rightarrow> string \<Rightarrow> exn + pyval" where
  "table_loads docs text =
     (case map_of (map (\<lambda>(v, t). (t, v)) docs) text of
        Some v \<Rightarrow> Inr v
      | None \<Rightarrow> Inl (Exn JSONDecodeError ''Expecting value: line 1 column 1 (char 0)''))"

definition jstr :: "string \<Rightarrow> string" where
  "jstr s = [CHR 0x22] @ s @ [CHR 0x22]"

definition jobject :: "(string \<times> string) list \<Rightarrow> string" where
  "jobject members =
     ''{'' @ [CHR 0x0A]
       @ py_join ('','' @ [CHR 0x0A]) (map (\<lambda>(k, v). ''  '' @ jstr k @ '': '' @ v) members)
       @ [CHR 0x0A] @ ''}''"

definition store_123 :: pyval where
  "store_123 = PDict [(''preferred_location_id'', PStr ''123'')]"

definition themed :: pyval where
  "themed = PDict [(''theme'', PStr ''dark''), (''preferred_location_id'', PStr ''70100123'')]"

definition themed_123 :: pyval where
  "themed_123 = PDict [(''theme'', PStr ''dark''), (''preferred_location_id'', PStr ''123'')]"

definition theme_only :: pyval where
  "theme_only = PDict [(''theme'', PStr ''dark'')]"

definition documents :: "(pyval \<times> string) list" where
  "documents =
     [(default_prefs, jobject [(''preferred_location_id'', ''null'')]),
      (store_123, jobject [(''preferred_location_id'', jstr ''123'')]),
      (themed, jobject [(''theme'', jstr ''dark''), (''preferred_location_id'', jstr ''70100123'')]),
      (themed_123, jobject [(''theme'', jstr ''dark''), (''preferred_location_id'', jstr ''123'')]),
      (theme_only, jobject [(''theme'', jstr ''dark'')]),
      (PList [], ''[]'')]"

definition posix :: "(disk, string) os_api" where
  "posix = memory_os ''posix'' ''/home/u'' (table_dumps documents) (table_loads documents)
             (table_dumps documents)"

definition prefs_path :: string where
  "prefs_path = ''/home/u/.kroger_mcp_preferences.json''"

definition disk_with :: "string option \<Rightarrow> exn option list \<Rightarrow> disk store" where
  "disk_with content script =
     \<lparr>fs = \<lparr>files = (\<lambda>path. if path = prefs_path then content else None), faults = script,
            stdout_error = None\<rparr>,
      log = []\<rparr>"

text \<open>The same with a standard output that was closed: every \<^verbatim>\<open>print\<close> raises.\<close>

definition stdout_closed :: exn where
  "stdout_closed = Exn ValueError ''I/O operation on closed file.''"

definition without_stdout :: "disk store \<Rightarrow> disk store" where
  "without_stdout s = s\<lparr>fs := (fs s)\<lparr>stdout_error := Some stdout_closed\<rparr>\<rparr>"

definition permission_denied :: exn where
  "permission_denied = Exn OSError (''[Errno 13] Permission denied: '' @ quoted ''/home/u'')"

text \<open>
  What \<^verbatim>\<open>json.dump\<close> raises when it writes a string with a lone surrogate to a UTF-8
  file; \<^verbatim>\<open>json.loads\<close> returns such a string for the escape of the code point D800. The
  strings of this development stay below code point 256, so the run that fails this way
  has the exception in its script, at the call of \<^verbatim>\<open>json.dump\<close>.
\<close>

definition surrogate_error :: exn where
  "surrogate_error =
     Exn UnicodeEncodeError
       (quoted ''utf-8'' @ '' codec can'' @ [CHR 0x27] @ ''t encode character ''
          @ quoted ([CHR 0x5C] @ ''ud800'') @ '' in position 11: surrogates not allowed'')"

subsection \<open>Notions the properties are stated with\<close>


text \<open>A value survives the JSON module: the text written for it is read back as it.\<close>

definition round_trips :: "(pyval \<Rightarrow> string) \<Rightarrow> (string \<Rightarrow> exn + pyval) \<Rightarrow> pyval \<Rightarrow> bool" where
  "round_trips dumps loads v =
     (py_strip (dumps v) \<noteq> [] \<and> loads (py_strip (dumps v)) = Inr v)"

text \<open>
  What the preferences file holds, for a reader that takes an absent, a blank and an
  undecodable file for the default record.
\<close>

definition stored_record :: "(string \<Rightarrow> exn + pyval) \<Rightarrow> string option \<Rightarrow> pyval" where
  "stored_record loads content =
     (case content of
        None \<Rightarrow> default_prefs
      | Some text \<Rightarrow>
          if py_strip text = [] then default_prefs
          else (case loads (py_strip text) of Inl e \<Rightarrow> default_prefs | Inr v \<Rightarrow> v))"

subsection \<open>Scripts of the concrete runs\<close>

definition stale_token :: token_info where
  "stale_token = [(''access_token'', PStr ''a0''), (''refresh_token'', PStr ''r0'')]"

definition refresh_rejected :: exn where
  "refresh_rejected = Exn Exception ''invalid_grant''"

definition token_store_error :: exn where
  "token_store_error = Exn OSError ''Authentication required to unlock the token store''"

text \<open>A stale token whose refresh is rejected.\<close>

definition failed_refresh_world :: script where
  "failed_refresh_world =
     \<lparr>environment = full_environment, token_on_disk = Inr (Some stale_token),
      construct_failure = None, validity_checks = [Inr False],
      refresh_failure = Some refresh_rejected, next_handle = 0\<rparr>"

text \<open>A token that is valid at two checks in a row.\<close>

definition valid_token_world :: script where
  "valid_token_world =
     \<lparr>environment = full_environment, token_on_disk = Inr (Some stale_token),
      construct_failure = None, validity_checks = [Inr True, Inr True],
      refresh_failure = None, next_handle = 0\<rparr>"

text \<open>A token file that cannot be read, with an error text of its own.\<close>

definition locked_store_world :: script where
  "locked_store_world =
     \<lparr>environment = full_environment, token_on_disk = Inl token_store_error,
      construct_failure = None, validity_checks = [],
      refresh_failure = None, next_handle = 0\<rparr>"

text \<open>No configuration at all, and a configured process with no token file.\<close>

definition unconfigured_world :: script where
  "unconfigured_world =
     \<lparr>environment = [], token_on_disk = Inr None,
      construct_failure = None, validity_checks = [],
      refresh_failure = None, next_handle = 0\<rparr>"

definition no_token_world :: script where
  "no_token_world =
     \<lparr>environment = full_environment, token_on_disk = Inr None,
      construct_failure = None, validity_checks = [],
      refresh_failure = None, next_handle = 0\<rparr>"

text \<open>
  The third call of a save that can fail is \<^verbatim>\<open>json.dump\<close>, after \<^verbatim>\<open>os.makedirs\<close> and
  \<^verbatim>\<open>open\<close>; when a file is loaded first, four calls go before.
\<close>

definition dump_fails :: "exn option list" where
  "dump_fails = [None, None, Some surrogate_error]"

definition dump_fails_on_update :: "exn option list" where
  "dump_fails_on_update = [None, None, None, None, None, None, Some surrogate_error]"

section \<open>Environment validation names every missing variable\<close>

lemma collect_missing_filter:
  "collect_missing env vars acc = acc @ filter (\<lambda>var. env_falsy (env var)) vars"
  by (induction vars arbitrary: acc) simp_all

lemma py_join_names_member: "v \<in> set xs \<Longrightarrow> sublist v (py_join sep xs)"
proof (induction sep xs rule: py_join.induct)
  case (1 sep)
  then show ?case by simp
next
  case (2 sep x)
  then show ?case by simp
next
  case (3 sep x y ys)
  show ?case
  proof (cases "v = x")
    case True
    then show ?thesis by simp
  next
    case False
    with 3 have "sublist v (py_join sep (y # ys))" by simp
    then have "sublist v ((x @ sep) @ py_join sep (y # ys))"
      by (metis sublist_append)
    then show ?thesis by simp
  qed
qed

text \<open>
  C3. Whatever the environment and the list of required variables: when none of them is
  unset or empty, \<^verbatim>\<open>load_and_validate_env\<close> returns normally; otherwise it raises a
  \<^verbatim>\<open>ValueError\<close> whose text lists the unset or empty variables, all of them and in the
  order of the list, so that the text names every one of them.
\<close>

theorem load_and_validate_env_names_every_missing:
  "load_and_validate_env env required_vars =
     (if filter (\<lambda>var. env_falsy (env var)) required_vars = [] then Inr ()
      else Inl (Exn ValueError
                 (missing_env_message (filter (\<lambda>var. env_falsy (env var)) required_vars))))
   \<and> (\<forall>var \<in> set required_vars. env_falsy (env var) \<longrightarrow>
         py_in var (missing_env_message (filter (\<lambda>var. env_falsy (env var)) required_vars)))"
proof -
  let ?missing = "filter (\<lambda>var. env_falsy (env var)) required_vars"
  have "load_and_validate_env env required_vars =
          (if ?missing = [] then Inr () else Inl (Exn ValueError (missing_env_message ?missing)))"
    by (simp add: load_and_validate_env_def collect_missing_filter)
  moreover have "py_in var (missing_env_message ?missing)"
    if "var \<in> set required_vars" "env_falsy (env var)" for var
  proof -
    from that have "var \<in> set ?missing" by simp
    then have "sublist var (py_join '', '' ?missing)" by (rule py_join_names_member)
    then show ?thesis
      unfolding py_in_def missing_env_message_def by (metis sublist_append)
  qed
  ultimately show ?thesis by blast
qed

text \<open>
  With the client id set, the secret empty and the redirect URI unset, the text names
  the secret and the redirect URI; with all three set the call returns.
\<close>

theorem load_and_validate_env_witness:
  "load_and_validate_env (map_of [(''KROGER_CLIENT_ID'', ''id''), (''KROGER_CLIENT_SECRET'', [])])
       user_env_vars =
     Inl (Exn ValueError
       ''Missing required environment variables: KROGER_CLIENT_SECRET, KROGER_REDIRECT_URI'')
   \<and> py_in ''KROGER_CLIENT_SECRET''
       ''Missing required environment variables: KROGER_CLIENT_SECRET, KROGER_REDIRECT_URI''
   \<and> py_in ''KROGER_REDIRECT_URI''
       ''Missing required environment variables: KROGER_CLIENT_SECRET, KROGER_REDIRECT_URI''
   \<and> load_and_validate_env (map_of full_environment) user_env_vars = Inr ()"
  using load_and_validate_env_names_every_missing
          [of "map_of [(''KROGER_CLIENT_ID'', ''id''), (''KROGER_CLIENT_SECRET'', [])]" user_env_vars]
        load_and_validate_env_names_every_missing [of "map_of full_environment" user_env_vars]
  by (simp add: user_env_vars_def env_falsy_def missing_env_message_def full_environment_def)

section \<open>The user session\<close>

lemmas session_calls =
  validate_env_def call_load_token_def call_KrogerAPI_def call_test_current_token_def
  call_refresh_token_def

lemmas scripted_runs =
  get_authenticated_client_def try_recover_def recover_user_client_def
  session_calls scripted_api_def fresh_session_def full_environment_def user_env_vars_def
  load_and_validate_env_def env_falsy_def

subsection \<open>Failures of the recovery\<close>

lemma get_authenticated_client_recovery:
  assumes "recovery_start api s = Some s1"
  shows "get_authenticated_client api s = try_recover api s1"
  using assms
  by (auto simp: recovery_start_def get_authenticated_client_def
           split: option.splits prod.splits sum.splits if_splits)

lemma authentication_required_text:
  "py_in ''Authentication required'' (msg authentication_required)"
  by (simp add: authentication_required_def py_in_def sublist_Cons_right)

lemma authentication_required_passes:
  "reraise_or_wrap authentication_required = authentication_required"
  by (simp add: reraise_or_wrap_def authentication_required_text)

lemma missing_config_text:
  assumes "load_and_validate_env env user_env_vars = Inl e"
  shows "\<not> py_in ''Authentication required'' (msg e)"
proof -
  have "collect_missing env user_env_vars [] \<in>
          {[], [''KROGER_CLIENT_ID''], [''KROGER_CLIENT_SECRET''], [''KROGER_REDIRECT_URI''],
           [''KROGER_CLIENT_ID'', ''KROGER_CLIENT_SECRET''],
           [''KROGER_CLIENT_ID'', ''KROGER_REDIRECT_URI''],
           [''KROGER_CLIENT_SECRET'', ''KROGER_REDIRECT_URI''],
           [''KROGER_CLIENT_ID'', ''KROGER_CLIENT_SECRET'', ''KROGER_REDIRECT_URI'']}"
    by (simp add: user_env_vars_def)
  moreover have "e = Exn ValueError (missing_env_message (collect_missing env user_env_vars []))"
    using assms by (simp add: load_and_validate_env_def Let_def split: if_splits)
  ultimately show ?thesis
    by (auto simp: missing_env_message_def py_in_def sublist_Cons_right)
qed

text \<open>
  C1, as the code has it. A failure \<open>e\<close> raised during the recovery leaves
  \<^verbatim>\<open>get_authenticated_client\<close> unchanged when its text contains
  \<^verbatim>\<open>Authentication required\<close>, whatever its class, and otherwise as a new \<^verbatim>\<open>Exception\<close>
  whose text is \<^verbatim>\<open>Authentication failed: \<close> followed by the text of \<open>e\<close>. The signal
  of lines 92 to 95 has such a text, so it is passed on as it is; the failure of the
  configuration check never has, so it is always wrapped.
\<close>

theorem recovery_failure_reraised_or_wrapped:
  assumes "recovery_start api s = Some s1"
    and "recover_user_client api s1 = (Inl e, s2)"
  shows "get_authenticated_client api s =
           (Inl (if py_in ''Authentication required'' (msg e) then e
                 else Exn Exception (''Authentication failed: '' @ msg e)), s2)
       \<and> (e = authentication_required \<longrightarrow>
            get_authenticated_client api s = (Inl authentication_required, s2))
       \<and> (load_and_validate_env (os_getenv api (world s1)) user_env_vars = Inl e \<longrightarrow>
            get_authenticated_client api s
              = (Inl (Exn Exception (''Authentication failed: '' @ msg e)), s2))"
proof -
  have run: "get_authenticated_client api s =
               (Inl (if py_in ''Authentication required'' (msg e) then e
                     else Exn Exception (''Authentication failed: '' @ msg e)), s2)"
    using assms
    by (simp add: get_authenticated_client_recovery try_recover_def reraise_or_wrap_def)
  moreover have "get_authenticated_client api s = (Inl authentication_required, s2)"
    if "e = authentication_required"
    using run that by (simp add: authentication_required_text)
  moreover have "get_authenticated_client api s
                   = (Inl (Exn Exception (''Authentication failed: '' @ msg e)), s2)"
    if "load_and_validate_env (os_getenv api (world s1)) user_env_vars = Inl e"
    using run missing_config_text [OF that] by simp
  ultimately show ?thesis by blast
qed

text \<open>
  Without configuration the \<^verbatim>\<open>ValueError\<close> of the check is wrapped; with configuration
  and no token file the signal is passed on.
\<close>

theorem recovery_failure_witness:
  "fst (get_authenticated_client scripted_api (fresh_session unconfigured_world))
     = Inl (Exn Exception (''Authentication failed: Missing required environment variables: ''
              @ ''KROGER_CLIENT_ID, KROGER_CLIENT_SECRET, KROGER_REDIRECT_URI''))
   \<and> fst (get_authenticated_client scripted_api (fresh_session no_token_world))
       = Inl authentication_required"
proof -
  have start1: "recovery_start scripted_api (fresh_session unconfigured_world)
                  = Some (fresh_session unconfigured_world)"
    and start2: "recovery_start scripted_api (fresh_session no_token_world)
                  = Some (fresh_session no_token_world)"
    by (simp_all add: recovery_start_def fresh_session_def)
  have fail1: "recover_user_client scripted_api (fresh_session unconfigured_world)
      = (Inl (Exn ValueError (''Missing required environment variables: ''
                @ ''KROGER_CLIENT_ID, KROGER_CLIENT_SECRET, KROGER_REDIRECT_URI'')),
         snd (recover_user_client scripted_api (fresh_session unconfigured_world)))"
    by (simp add: scripted_runs unconfigured_world_def missing_env_message_def)
  have fail2: "recover_user_client scripted_api (fresh_session no_token_world)
      = (Inl authentication_required,
         snd (recover_user_client scripted_api (fresh_session no_token_world)))"
    by (simp add: scripted_runs no_token_world_def)
  from recovery_failure_reraised_or_wrapped [OF start1 fail1, THEN conjunct1]
  have wrapped: "fst (get_authenticated_client scripted_api (fresh_session unconfigured_world))
     = Inl (Exn Exception (''Authentication failed: Missing required environment variables: ''
              @ ''KROGER_CLIENT_ID, KROGER_CLIENT_SECRET, KROGER_REDIRECT_URI''))"
    by (simp add: py_in_def sublist_Cons_right)
  from recovery_failure_reraised_or_wrapped [OF start2 fail2, THEN conjunct2, THEN conjunct1]
  have passed: "fst (get_authenticated_client scripted_api (fresh_session no_token_world))
     = Inl authentication_required"
    by simp
  from wrapped passed show ?thesis by blast
qed

text \<open>
  C1 as stated fails: the token file cannot be read, the error is not the signal, and it
  leaves the function as it is, an \<^verbatim>\<open>OSError\<close>, because its text happens to contain
  \<^verbatim>\<open>Authentication required\<close>.
\<close>

theorem text_match_counterexample:
  "fst (recover_user_client scripted_api (fresh_session locked_store_world))
     = Inl token_store_error
   \<and> token_store_error \<noteq> authentication_required
   \<and> cls token_store_error = OSError
   \<and> fst (get_authenticated_client scripted_api (fresh_session locked_store_world))
       = Inl token_store_error
   \<and> fst (get_authenticated_client scripted_api (fresh_session locked_store_world))
       \<noteq> Inl (Exn Exception (''Authentication failed: '' @ msg token_store_error))"
  by (simp add: scripted_runs locked_store_world_def token_store_error_def
        authentication_required_def reraise_or_wrap_def py_in_def sublist_Cons_right)

subsection \<open>A failed refresh\<close>

lemma recover_trace:
  assumes "recover_user_client api s = (r, s')"
  shows "\<exists>evs. trace s' = trace s @ evs \<and>
           ((\<exists>h rt e. RefreshToken h rt (Inl e) \<in> set evs) \<longrightarrow> r = Inl authentication_required)"
  using assms
  unfolding recover_user_client_def session_calls Let_def
  by (auto split: prod.splits sum.splits option.splits if_splits)

lemma try_recover_refresh_failed:
  assumes "try_recover api s = (r, s')"
    and "RefreshToken h rt (Inl e) \<in> set (new_events s s')"
  shows "r = Inl authentication_required"
proof -
  obtain r0 where r0: "recover_user_client api s = (r0, s')"
    and r: "r = (case r0 of Inl e \<Rightarrow> Inl (reraise_or_wrap e) | Inr h \<Rightarrow> Inr h)"
    using assms(1) by (auto simp: try_recover_def split: prod.splits sum.splits)
  from recover_trace [OF r0] obtain evs where evs: "trace s' = trace s @ evs"
    and sig: "(\<exists>h rt e. RefreshToken h rt (Inl e) \<in> set evs) \<longrightarrow> r0 = Inl authentication_required"
    by blast
  from assms(2) evs have "RefreshToken h rt (Inl e) \<in> set evs"
    by (simp add: new_events_def)
  with sig have "r0 = Inl authentication_required" by blast
  with r show ?thesis by (simp add: authentication_required_passes)
qed

text \<open>
  C2. Whatever the state: when a call of \<^verbatim>\<open>get_authenticated_client\<close> attempts a
  refresh and the refresh raises, the call raises the signal of lines 92 to 95, as it
  is and not wrapped. A refresh is attempted only for a token record that was loaded,
  failed the validity check and holds a refresh credential.
\<close>

theorem failed_refresh_requires_authentication:
  assumes "get_authenticated_client api s = (r, s')"
    and "RefreshToken h rt (Inl e) \<in> set (new_events s s')"
  shows "r = Inl authentication_required"
proof (cases "authenticated_client s")
  case None
  with assms(1) have "try_recover api (s\<lparr>authenticated_client := None\<rparr>) = (r, s')"
    by (simp add: get_authenticated_client_def)
  moreover from assms(2)
  have "RefreshToken h rt (Inl e) \<in> set (new_events (s\<lparr>authenticated_client := None\<rparr>) s')"
    by (simp add: new_events_def)
  ultimately show ?thesis by (rule try_recover_refresh_failed)
next
  case (Some h0)
  obtain r1 s1 where c: "call_test_current_token api h0 s = (r1, s1)"
    by (cases "call_test_current_token api h0 s")
  then have tr: "trace s1 = trace s @ [TestToken h0 r1]"
    by (auto simp: call_test_current_token_def split: prod.splits)
  show ?thesis
  proof (cases "r1 = Inr False")
    case True
    with Some c assms(1)
    have run: "try_recover api (s1\<lparr>authenticated_client := None\<rparr>) = (r, s')"
      by (simp add: get_authenticated_client_def)
    obtain r0 where "recover_user_client api (s1\<lparr>authenticated_client := None\<rparr>) = (r0, s')"
      using run by (auto simp: try_recover_def split: prod.splits sum.splits)
    from recover_trace [OF this] obtain evs where "trace s' = trace s1 @ evs"
      by auto
    with tr assms(2)
    have "RefreshToken h rt (Inl e) \<in> set (new_events (s1\<lparr>authenticated_client := None\<rparr>) s')"
      by (simp add: new_events_def)
    with run show ?thesis by (rule try_recover_refresh_failed)
  next
    case False
    with Some c assms(1) have "s' = s1"
      by (auto simp: get_authenticated_client_def split: sum.splits if_splits)
    with tr assms(2) show ?thesis by (simp add: new_events_def)
  qed
qed

text \<open>The stale token of the script is refreshed, the refresh is rejected.\<close>

theorem failed_refresh_witness:
  "RefreshToken 0 (PStr ''r0'') (Inl refresh_rejected)
     \<in> set (new_events (fresh_session failed_refresh_world)
               (snd (get_authenticated_client scripted_api (fresh_session failed_refresh_world))))
   \<and> fst (get_authenticated_client scripted_api (fresh_session failed_refresh_world))
       = Inl authentication_required"
proof -
  have ev: "RefreshToken 0 (PStr ''r0'') (Inl refresh_rejected)
     \<in> set (new_events (fresh_session failed_refresh_world)
               (snd (get_authenticated_client scripted_api (fresh_session failed_refresh_world))))"
    by (simp add: scripted_runs new_events_def failed_refresh_world_def stale_token_def)
  from failed_refresh_requires_authentication [OF prod.collapse [symmetric] ev] ev
  show ?thesis by simp
qed

subsection \<open>The cached handle\<close>

lemma recover_returns_cached:
  assumes "recover_user_client api s = (Inr h, s')"
  shows "authenticated_client s' = Some h"
  using assms
  unfolding recover_user_client_def session_calls Let_def
  by (auto split: prod.splits sum.splits option.splits if_splits)

lemma get_authenticated_client_caches:
  assumes "get_authenticated_client api s = (Inr h, s')"
  shows "authenticated_client s' = Some h"
  using assms
  by (auto simp: get_authenticated_client_def try_recover_def call_test_current_token_def
           split: prod.splits sum.splits option.splits if_splits
           dest: recover_returns_cached)

text \<open>
  C4. After a call of \<^verbatim>\<open>get_authenticated_client\<close> that returned a handle, the handle
  is cached; if its validity check succeeds, the next call returns the same handle,
  leaves it cached, and makes exactly one call to a collaborator, that validity check:
  no configuration check, no token load, no construction, no refresh.
\<close>

theorem second_call_returns_cached_handle:
  assumes "get_authenticated_client api s0 = (Inr h, s1)"
    and "test_current_token api h (world s1) = (Inr True, w2)"
  shows "authenticated_client s1 = Some h
       \<and> get_authenticated_client api s1 =
           (Inr h, s1\<lparr>world := w2, trace := trace s1 @ [TestToken h (Inr True)]\<rparr>)"
proof -
  from assms(1) have cached: "authenticated_client s1 = Some h"
    by (rule get_authenticated_client_caches)
  with assms(2) show ?thesis
    by (simp add: get_authenticated_client_def call_test_current_token_def)
qed

text \<open>
  The first call loads a valid token and constructs handle 0; the second returns
  handle 0 after one validity check.
\<close>

theorem second_call_witness:
  "fst (get_authenticated_client scripted_api (fresh_session valid_token_world)) = Inr 0
   \<and> fst (get_authenticated_client scripted_api
            (snd (get_authenticated_client scripted_api (fresh_session valid_token_world)))) = Inr 0
   \<and> new_events (snd (get_authenticated_client scripted_api (fresh_session valid_token_world)))
        (snd (get_authenticated_client scripted_api
            (snd (get_authenticated_client scripted_api (fresh_session valid_token_world)))))
       = [TestToken 0 (Inr True)]"
proof -
  let ?first = "get_authenticated_client scripted_api (fresh_session valid_token_world)"
  have first: "?first = (Inr 0, snd ?first)"
    by (simp add: scripted_runs valid_token_world_def stale_token_def)
  have valid: "test_current_token scripted_api 0 (world (snd ?first))
                 = (Inr True, valid_token_world\<lparr>validity_checks := [], next_handle := 1\<rparr>)"
    by (simp add: scripted_runs valid_token_world_def stale_token_def)
  have first_result: "fst ?first = Inr 0"
    by (simp add: scripted_runs valid_token_world_def stale_token_def)
  from second_call_returns_cached_handle [OF first valid]
  have "get_authenticated_client scripted_api (snd ?first) =
          (Inr 0, snd ?first\<lparr>world := valid_token_world\<lparr>validity_checks := [], next_handle := 1\<rparr>,
                              trace := trace (snd ?first) @ [TestToken 0 (Inr True)]\<rparr>)"
    by blast
  with first_result show ?thesis by (simp add: new_events_def)
qed

section \<open>The preference store\<close>

lemmas store_steps = perform_def path_exists_def logged_def print_line_def with_exit_def

lemmas concrete_runs =
  load_preferences_def load_body_def save_preferences_def save_body_def save_handler_def
  write_temp_def remove_target_on_windows_def store_steps memory_os_def scripted_def
  PREFERENCES_FILE_def posix_def disk_with_def prefs_path_def
  table_loads_def table_dumps_def documents_def jobject_def jstr_def default_prefs_def
  store_123_def themed_def themed_123_def theme_only_def py_get_def py_setitem_def
  py_strip_def py_isspace_def py_str_def posix_dirname_def quoted_def Let_def

subsection \<open>What loading returns\<close>

lemma print_line_succeeds:
  assumes "\<And>line w. fst (py_print os line w) = Inr ()"
  shows "fst (print_line os line s) = Inr ()"
  using assms [of line "fs s"]
  by (cases "py_print os line (fs s)") (simp add: print_line_def perform_def)

lemma load_body_success_value:
  assumes "load_body os s = (Inr preferences, s1)"
  shows "preferences = default_prefs
       \<or> (\<exists>w1 f w2 content w3 w4.
             os_makedirs os (os_path_dirname os (PREFERENCES_FILE os)) (fs s) = (Inr (), w1)
           \<and> os_path_exists os (PREFERENCES_FILE os) w1
           \<and> open_r os (PREFERENCES_FILE os) w1 = (Inr f, w2)
           \<and> f_read os f w2 = (Inr content, w3)
           \<and> f_close os f w3 = (Inr (), w4)
           \<and> py_strip content \<noteq> []
           \<and> json_loads os (py_strip content) = Inr preferences)"
  using assms
  unfolding load_body_def with_exit_def perform_def path_exists_def logged_def Let_def
  by (auto split: prod.splits sum.splits if_splits)

text \<open>
  As long as \<^verbatim>\<open>print\<close> does not raise, \<^verbatim>\<open>_load_preferences\<close> raises nothing, whatever
  the other collaborators do: a failure of its \<^verbatim>\<open>try\<close> block ends in the default
  record, and a value other than the default record is what \<^verbatim>\<open>json.loads\<close> made of the
  text of a file that was read without failure.
\<close>

lemma load_preferences_recovers:
  assumes prints: "\<And>line w. fst (py_print os line w) = Inr ()"
  shows "(\<exists>preferences. fst (load_preferences os s) = Inr preferences)
   \<and> (\<forall>e s1. load_body os s = (Inl e, s1) \<longrightarrow> fst (load_preferences os s) = Inr default_prefs)
   \<and> (\<forall>preferences. fst (load_preferences os s) = Inr preferences \<longrightarrow>
          preferences = default_prefs
        \<or> (\<exists>w1 f w2 content w3 w4.
              os_makedirs os (os_path_dirname os (PREFERENCES_FILE os)) (fs s) = (Inr (), w1)
            \<and> os_path_exists os (PREFERENCES_FILE os) w1
            \<and> open_r os (PREFERENCES_FILE os) w1 = (Inr f, w2)
            \<and> f_read os f w2 = (Inr content, w3)
            \<and> f_close os f w3 = (Inr (), w4)
            \<and> py_strip content \<noteq> []
            \<and> json_loads os (py_strip content) = Inr preferences))"
proof (cases "load_body os s")
  case (Pair r s1)
  show ?thesis
  proof (cases r)
    case (Inl e)
    have printed: "\<And>line t pe t'. print_line os line t \<noteq> (Inl pe, t')"
      using print_line_succeeds [OF prints] by (metis fst_conv sum.distinct(1))
    from Pair Inl have "fst (load_preferences os s) = Inr default_prefs"
      by (auto simp: load_preferences_def printed split: prod.splits sum.splits)
    with Pair Inl show ?thesis by simp
  next
    case (Inr preferences)
    with Pair have "fst (load_preferences os s) = Inr preferences"
      by (simp add: load_preferences_def)
    with Pair Inr load_body_success_value [of os s preferences s1] show ?thesis by simp
  qed
qed

text \<open>
  C8 fails on the code. A file that holds the JSON array \<^verbatim>\<open>[]\<close> is not absent, empty or
  undecodable: line 124 returns what \<^verbatim>\<open>json.loads\<close> made of it, a list, where the
  function is annotated to return a dict and every other bad file ends in the default
  record. And with a standard output that was closed, the \<^verbatim>\<open>print\<close> of the handler
  (line 134) raises for a file that does not decode, and the exception leaves the
  function.
\<close>

theorem non_object_file_is_returned:
  "fst (load_preferences posix (disk_with (Some ''[]'') [])) = Inr (PList [])
   \<and> PList [] \<noteq> default_prefs
   \<and> fst (load_preferences posix (without_stdout (disk_with (Some ''{broken'') [])))
       = Inl stdout_closed"
  by (simp add: concrete_runs without_stdout_def)

subsection \<open>A blank file and a file that does not decode\<close>




subsection \<open>A record without the key\<close>



subsection \<open>A save that fails\<close>

text \<open>
  Once line 153 has assigned \<^verbatim>\<open>temp_file\<close>, a failure of the save is raised again as
  it is, after the handler has printed its line and asked whether the temporary file
  exists.
\<close>

lemma save_failure_reraised_once_temp_file_is_bound:
  assumes "save_body os preferences s = (Inl (e, Some temp_file), s1)"
    and "print_line os (''Error: Could not save preferences to '' @ PREFERENCES_FILE os
                          @ '': '' @ msg e) s1 = (Inr (), s2)"
  shows "fst (save_preferences os preferences s) = Inl e
       \<and> Exists temp_file \<in> set (log (snd (save_preferences os preferences s)))
       \<and> (os_path_exists os temp_file (fs s2) \<longrightarrow>
            Remove temp_file \<in> set (log (snd (save_preferences os preferences s))))"
  using assms
  unfolding save_preferences_def save_handler_def perform_def path_exists_def logged_def
  by (auto split: prod.splits)

text \<open>
  C9 holds for every step but the first. When \<^verbatim>\<open>os.makedirs\<close> fails, here with a
  permission error, line 153 has not run: the handler prints, then reads the local
  variable \<^verbatim>\<open>temp_file\<close>, which is unassigned, and the caller gets an
  \<^verbatim>\<open>UnboundLocalError\<close> in place of the permission error.
\<close>

theorem makedirs_failure_is_masked:
  "fst (save_preferences posix default_prefs (disk_with None [Some permission_denied]))
     = Inl unbound_temp_file
   \<and> unbound_temp_file \<noteq> permission_denied
   \<and> cls unbound_temp_file = UnboundLocalError
   \<and> log (snd (save_preferences posix default_prefs (disk_with None [Some permission_denied])))
       = [Makedirs ''/home/u'',
          Print (''Error: Could not save preferences to /home/u/.kroger_mcp_preferences.json: ''
                   @ ''[Errno 13] Permission denied: '' @ quoted ''/home/u'')]"
  by (simp add: concrete_runs permission_denied_def unbound_temp_file_def)

subsection \<open>Saving and loading when no call fails\<close>

lemmas memory_ops = memory_os_def scripted_def store_steps PREFERENCES_FILE_def

lemma save_memory:
  assumes "faults (fs s) = []" and "stdout_error (fs s) = None"
  shows "fst (save_preferences (memory_os name home dumps loads repr) preferences s) = Inr ()
       \<and> faults (fs (snd (save_preferences (memory_os name home dumps loads repr) preferences s))) = []
       \<and> stdout_error
            (fs (snd (save_preferences (memory_os name home dumps loads repr) preferences s))) = None
       \<and> files (fs (snd (save_preferences (memory_os name home dumps loads repr) preferences s)))
            (PREFERENCES_FILE (memory_os name home dumps loads repr)) = Some (dumps preferences)"
  using assms
  unfolding save_preferences_def save_body_def write_temp_def remove_target_on_windows_def
    memory_ops Let_def
  by (simp split: option.splits)

lemma load_memory_keeps:
  assumes "faults (fs s) = []"
    and "files (fs s) (PREFERENCES_FILE (memory_os name home dumps loads repr)) = Some content"
    and "py_strip content \<noteq> []"
    and "loads (py_strip content) = Inr v"
  shows "fst (load_preferences (memory_os name home dumps loads repr) s) = Inr v
       \<and> fs (snd (load_preferences (memory_os name home dumps loads repr) s)) = fs s"
  using assms
  unfolding load_preferences_def load_body_def memory_ops Let_def
  by simp

lemma load_memory:
  assumes "faults (fs s) = []" and "stdout_error (fs s) = None"
  shows "fst (load_preferences (memory_os name home dumps loads repr) s)
           = Inr (stored_record loads
                    (files (fs s) (PREFERENCES_FILE (memory_os name home dumps loads repr))))
       \<and> faults (fs (snd (load_preferences (memory_os name home dumps loads repr) s))) = []
       \<and> stdout_error (fs (snd (load_preferences (memory_os name home dumps loads repr) s))) = None"
proof (cases "files (fs s) (PREFERENCES_FILE (memory_os name home dumps loads repr))")
  case None
  let ?os = "memory_os name home dumps loads repr"
  let ?s2 = "s\<lparr>log := log s @ [Makedirs (posix_dirname (PREFERENCES_FILE ?os)),
                               Exists (PREFERENCES_FILE ?os)]\<rparr>"
  have body: "load_body ?os s =
          (case save_preferences ?os default_prefs ?s2 of
             (Inl e, s3) \<Rightarrow> (Inl e, s3)
           | (Inr u, s3) \<Rightarrow> (Inr default_prefs, s3))"
    using assms None
    unfolding load_body_def memory_ops
    by simp
  have "faults (fs ?s2) = []" "stdout_error (fs ?s2) = None"
    using assms by simp_all
  note save_memory [OF this, of name home dumps loads repr default_prefs]
  with body None show ?thesis
    by (auto simp: load_preferences_def stored_record_def split: prod.splits sum.splits)
next
  case (Some content)
  let ?os = "memory_os name home dumps loads repr"
  let ?s4 = "s\<lparr>log := log s @ [Makedirs (posix_dirname (PREFERENCES_FILE ?os)),
                               Exists (PREFERENCES_FILE ?os), OpenRead (PREFERENCES_FILE ?os),
                               Read, Close]\<rparr>"
  have body: "load_body ?os s =
          (if py_strip content \<noteq> [] then (loads (py_strip content), ?s4)
           else (Inr default_prefs, ?s4))"
    using assms Some
    unfolding load_body_def memory_ops Let_def
    by (simp split: sum.splits)
  show ?thesis
  proof (cases "py_strip content = []")
    case True
    with body Some assms show ?thesis
      by (simp add: load_preferences_def stored_record_def)
  next
    case False
    show ?thesis
    proof (cases "loads (py_strip content)")
      case (Inr v)
      with False body Some assms show ?thesis
        by (simp add: load_preferences_def stored_record_def)
    next
      case (Inl e)
      let ?line = "''Warning: Could not load preferences from '' @ PREFERENCES_FILE ?os
                     @ '': '' @ msg e"
      let ?s5 = "?s4\<lparr>log := log ?s4 @ [Print ?line]\<rparr>"
      have warned: "print_line ?os ?line ?s4 = (Inr (), ?s5)"
        using assms by (simp add: print_line_def perform_def memory_os_def)
      have "faults (fs ?s5) = []" "stdout_error (fs ?s5) = None"
        using assms by simp_all
      note saved = save_memory [OF this, of name home dumps loads repr default_prefs]
      have other: "print_line ?os (''Warning: Unexpected error loading preferences: '' @ msg e) ?s4
                     = (Inr (), ?s4\<lparr>log := log ?s4
                          @ [Print (''Warning: Unexpected error loading preferences: '' @ msg e)]\<rparr>)"
        using assms by (simp add: print_line_def perform_def memory_os_def)
      show ?thesis
      proof (cases "cls e = JSONDecodeError \<or> cls e = OSError")
        case True
        with Inl False body Some warned saved show ?thesis
          by (auto simp: load_preferences_def stored_record_def split: prod.splits sum.splits)
      next
        case no: False
        with Inl False body Some other assms show ?thesis
          by (simp add: load_preferences_def stored_record_def)
      qed
    qed
  qed
qed

lemma set_memory:
  fixes name home dumps loads repr location_id kvs
  defines "os \<equiv> memory_os name home dumps loads repr"
  defines "updated \<equiv> PDict (AList.update ''preferred_location_id'' (PStr location_id) kvs)"
  assumes quiet: "faults (fs s) = []"
    and out: "stdout_error (fs s) = None"
    and held: "stored_record loads (files (fs s) (PREFERENCES_FILE os)) = PDict kvs"
    and codec: "round_trips dumps loads updated"
  shows "fst (set_preferred_location_id os location_id s) = Inr ()
       \<and> faults (fs (snd (set_preferred_location_id os location_id s))) = []
       \<and> stdout_error (fs (snd (set_preferred_location_id os location_id s))) = None
       \<and> files (fs (snd (set_preferred_location_id os location_id s))) (PREFERENCES_FILE os)
            = Some (dumps updated)"
proof -
  let ?line = "''Setting preferred location ID to: '' @ location_id"
  let ?s0 = "s\<lparr>log := log s @ [Print ?line]\<rparr>"
  have p0: "print_line os ?line s = (Inr (), ?s0)"
    using out by (simp add: print_line_def perform_def os_def memory_os_def)
  obtain r1 s1 where l1: "load_preferences os ?s0 = (r1, s1)"
    by (cases "load_preferences os ?s0")
  have "faults (fs ?s0) = []" "stdout_error (fs ?s0) = None"
    using quiet out by simp_all
  from load_memory [OF this, of name home dumps loads repr] l1 held
  have r1: "r1 = Inr (PDict kvs)" and q1: "faults (fs s1) = []"
    and o1: "stdout_error (fs s1) = None"
    by (simp_all add: os_def)
  obtain r2 s2 where sv: "save_preferences os updated s1 = (r2, s2)"
    by (cases "save_preferences os updated s1")
  with save_memory [OF q1 o1, of name home dumps loads repr updated]
  have r2: "r2 = Inr ()" and q2: "faults (fs s2) = []" and o2: "stdout_error (fs s2) = None"
    and f2: "files (fs s2) (PREFERENCES_FILE os) = Some (dumps updated)"
    by (simp_all add: os_def)
  obtain r3 s3 where l2: "load_preferences os s2 = (r3, s3)"
    by (cases "load_preferences os s2")
  with load_memory_keeps [OF q2, of name home dumps loads repr "dumps updated" updated] f2 codec
  have r3: "r3 = Inr updated" and k3: "fs s3 = fs s2"
    by (simp_all add: os_def round_trips_def)
  have got: "py_get updated ''preferred_location_id'' = Inr (PStr location_id)"
    by (simp add: updated_def py_get_def update_conv')
  let ?done = "''Successfully saved preferred location ID: '' @ location_id"
  have p3: "print_line os ?done s3 = (Inr (), s3\<lparr>log := log s3 @ [Print ?done]\<rparr>)"
    using o2 k3 by (simp add: print_line_def perform_def os_def memory_os_def)
  have "set_preferred_location_id os location_id s
          = (Inr (), s3\<lparr>log := log s3 @ [Print ?done]\<rparr>)"
    using p0 l1 r1 sv r2 l2 r3 got p3
    by (simp add: set_preferred_location_id_def py_setitem_def updated_def)
  with q2 o2 f2 k3 show ?thesis
    by simp
qed

text \<open>
  C6, as the code has it. When no call fails (the disk and the standard output do not
  fail) and \<^verbatim>\<open>json.loads\<close> reads back, as the same record, the text \<^verbatim>\<open>json.dump\<close> writes
  for the record at hand: \<^verbatim>\<open>_save_preferences\<close> of a record followed by
  \<^verbatim>\<open>_load_preferences\<close> returns that record, with every key it has; and when the file
  holds the record \<open>kvs\<close>, \<^verbatim>\<open>set_preferred_location_id\<close> succeeds and leaves a file that
  loads as \<open>kvs\<close> with the one key set: every other key has the value it had, and the
  keys stand in the order they stood in.
\<close>

theorem preferences_round_trip_and_keys_preserved:
  fixes name home dumps loads repr location_id kvs
  defines "os \<equiv> memory_os name home dumps loads repr"
  defines "updated \<equiv> AList.update ''preferred_location_id'' (PStr location_id) kvs"
  assumes quiet: "faults (fs s) = []"
    and out: "stdout_error (fs s) = None"
  shows "(round_trips dumps loads (PDict kvs) \<longrightarrow>
            fst (save_preferences os (PDict kvs) s) = Inr ()
          \<and> fst (load_preferences os (snd (save_preferences os (PDict kvs) s))) = Inr (PDict kvs))
       \<and> (stored_record loads (files (fs s) (PREFERENCES_FILE os)) = PDict kvs
            \<and> round_trips dumps loads (PDict updated) \<longrightarrow>
            fst (set_preferred_location_id os location_id s) = Inr ()
          \<and> fst (load_preferences os (snd (set_preferred_location_id os location_id s)))
              = Inr (PDict updated)
          \<and> (\<forall>k. k \<noteq> ''preferred_location_id'' \<longrightarrow> map_of updated k = map_of kvs k)
          \<and> map_of updated ''preferred_location_id'' = Some (PStr location_id)
          \<and> (''preferred_location_id'' \<in> fst ` set kvs \<longrightarrow> map fst updated = map fst kvs))"
proof -
  have saved: "fst (load_preferences os (snd (save_preferences os (PDict kvs) s))) = Inr (PDict kvs)"
    and ok: "fst (save_preferences os (PDict kvs) s) = Inr ()"
    if "round_trips dumps loads (PDict kvs)"
  proof -
    let ?s' = "snd (save_preferences os (PDict kvs) s)"
    from save_memory [OF quiet out, of name home dumps loads repr "PDict kvs"]
    have q: "faults (fs ?s') = []"
      and f: "files (fs ?s') (PREFERENCES_FILE os) = Some (dumps (PDict kvs))"
      and r: "fst (save_preferences os (PDict kvs) s) = Inr ()"
      by (simp_all add: os_def)
    from that load_memory_keeps [OF q, of name home dumps loads repr "dumps (PDict kvs)" "PDict kvs"] f
    show "fst (load_preferences os ?s') = Inr (PDict kvs)"
      by (simp add: os_def round_trips_def)
    from r show "fst (save_preferences os (PDict kvs) s) = Inr ()" .
  qed
  have set_ok: "fst (set_preferred_location_id os location_id s) = Inr ()"
    and reloaded: "fst (load_preferences os (snd (set_preferred_location_id os location_id s)))
                     = Inr (PDict updated)"
    if held: "stored_record loads (files (fs s) (PREFERENCES_FILE os)) = PDict kvs"
      and codec: "round_trips dumps loads (PDict updated)"
  proof -
    let ?s' = "snd (set_preferred_location_id os location_id s)"
    from set_memory [OF quiet out, of loads name home dumps repr kvs location_id] held codec
    have r: "fst (set_preferred_location_id os location_id s) = Inr ()"
      and q: "faults (fs ?s') = []"
      and f: "files (fs ?s') (PREFERENCES_FILE os) = Some (dumps (PDict updated))"
      by (simp_all add: os_def updated_def)
    from r show "fst (set_preferred_location_id os location_id s) = Inr ()" .
    from codec load_memory_keeps [OF q, of name home dumps loads repr "dumps (PDict updated)" "PDict updated"] f
    show "fst (load_preferences os ?s') = Inr (PDict updated)"
      by (simp add: os_def round_trips_def)
  qed
  have others: "map_of updated k = map_of kvs k" if "k \<noteq> ''preferred_location_id''" for k
    using that by (simp add: updated_def update_conv')
  have mine: "map_of updated ''preferred_location_id'' = Some (PStr location_id)"
    by (simp add: updated_def update_conv')
  have order: "map fst updated = map fst kvs" if "''preferred_location_id'' \<in> fst ` set kvs"
    using that by (simp add: updated_def update_keys)
  from saved ok set_ok reloaded others mine order show ?thesis by blast
qed

text \<open>
  A record with a theme is saved and loaded back; in a file that holds it the location
  is set, and the theme is still there.
\<close>

theorem preferences_round_trip_witness:
  "fst (load_preferences posix (snd (save_preferences posix themed (disk_with None []))))
     = Inr themed
   \<and> fst (set_preferred_location_id posix ''123''
            (disk_with (Some (table_dumps documents themed)) [])) = Inr ()
   \<and> fst (load_preferences posix
            (snd (set_preferred_location_id posix ''123''
                    (disk_with (Some (table_dumps documents themed)) [])))) = Inr themed_123
   \<and> py_get themed_123 ''theme'' = py_get themed ''theme''"
proof -
  let ?kvs = "[(''theme'', PStr ''dark''), (''preferred_location_id'', PStr ''70100123'')]"
  let ?d0 = "disk_with None []"
  let ?d1 = "disk_with (Some (table_dumps documents themed)) []"
  have quiet: "faults (fs ?d0) = []" "faults (fs ?d1) = []"
    and out: "stdout_error (fs ?d0) = None" "stdout_error (fs ?d1) = None"
    by (simp_all add: disk_with_def)
  have codec: "round_trips (table_dumps documents) (table_loads documents) (PDict ?kvs)"
    "round_trips (table_dumps documents) (table_loads documents)
       (PDict (AList.update ''preferred_location_id'' (PStr ''123'') ?kvs))"
    by (simp_all add: round_trips_def concrete_runs)
  have held: "stored_record (table_loads documents)
                (files (fs ?d1)
                   (PREFERENCES_FILE (memory_os ''posix'' ''/home/u'' (table_dumps documents)
                                        (table_loads documents) (table_dumps documents))))
              = PDict ?kvs"
    by (simp add: stored_record_def concrete_runs)
  from preferences_round_trip_and_keys_preserved
         [where s = ?d0 and name = "''posix''" and home = "''/home/u''"
            and dumps = "table_dumps documents" and loads = "table_loads documents"
            and repr = "table_dumps documents" and kvs = ?kvs, OF quiet(1) out(1)] codec(1)
  have first: "fst (load_preferences posix (snd (save_preferences posix themed ?d0))) = Inr themed"
    by (simp add: posix_def themed_def)
  from preferences_round_trip_and_keys_preserved
         [where s = ?d1 and name = "''posix''" and home = "''/home/u''"
            and dumps = "table_dumps documents" and loads = "table_loads documents"
            and repr = "table_dumps documents" and kvs = ?kvs and location_id = "''123''",
          OF quiet(2) out(2)] codec(2) held
  have second: "fst (set_preferred_location_id posix ''123'' ?d1) = Inr ()
      \<and> fst (load_preferences posix (snd (set_preferred_location_id posix ''123'' ?d1)))
          = Inr themed_123"
    by (simp add: posix_def themed_123_def)
  have "py_get themed_123 ''theme'' = py_get themed ''theme''"
    by (simp add: py_get_def themed_123_def themed_def)
  with first second show ?thesis by blast
qed

text \<open>
  C6 as stated fails when the record cannot be written: \<^verbatim>\<open>json.dump\<close> raises on it, as
  it does for a string with a lone surrogate. \<^verbatim>\<open>_save_preferences\<close> raises that
  exception, the file is not created, and the load that follows returns the default
  record, without the theme. In a file that holds the record,
  \<^verbatim>\<open>set_preferred_location_id\<close> raises the same exception.
\<close>

theorem unwritable_record_counterexample:
  "fst (save_preferences posix themed (disk_with None dump_fails)) = Inl surrogate_error
   \<and> fst (load_preferences posix (snd (save_preferences posix themed (disk_with None dump_fails))))
       = Inr default_prefs
   \<and> py_get default_prefs ''theme'' \<noteq> py_get themed ''theme''
   \<and> fst (set_preferred_location_id posix ''123''
            (disk_with (Some (table_dumps documents themed)) dump_fails_on_update))
       = Inl surrogate_error"
  by (simp add: concrete_runs set_preferred_location_id_def dump_fails_def
        dump_fails_on_update_def surrogate_error_def)

subsection \<open>Setting the location and reading it back\<close>

lemma verification_failed_names_both:
  "py_in location_id (msg (verification_failed os location_id saved_location_id))
   \<and> py_in (py_str os saved_location_id)
       (msg (verification_failed os location_id saved_location_id))"
proof -
  have "sublist location_id
          (''Failed to save preferred location. Expected: '' @ location_id
             @ ('', Got: '' @ py_str os saved_location_id))"
    by (rule sublist_appendI)
  moreover have "sublist (py_str os saved_location_id)
          ((''Failed to save preferred location. Expected: '' @ location_id @ '', Got: '')
             @ py_str os saved_location_id)"
    by (rule sublist_append_leftI)
  ultimately show ?thesis
    by (simp add: verification_failed_def py_in_def)
qed

text \<open>
  When the record loaded takes the key, the save succeeds, and the record loaded after
  the save gives a value for the key that differs from the identifier, the call raises
  an \<^verbatim>\<open>Exception\<close> whose text holds the identifier and that value.
\<close>

lemma reload_mismatch:
  assumes "print_line os (''Setting preferred location ID to: '' @ location_id) s = (Inr (), s0)"
    and "load_preferences os s0 = (Inr preferences, s1)"
    and "py_setitem preferences ''preferred_location_id'' (PStr location_id) = Inr preferences'"
    and "save_preferences os preferences' s1 = (Inr (), s2)"
    and "load_preferences os s2 = (Inr saved_preferences, s3)"
    and "py_get saved_preferences ''preferred_location_id'' = Inr saved_location_id"
    and "saved_location_id \<noteq> PStr location_id"
  shows "set_preferred_location_id os location_id s =
           (Inl (verification_failed os location_id saved_location_id), s3)"
  using assms
  unfolding set_preferred_location_id_def
  by simp

text \<open>
  When no call fails, \<^verbatim>\<open>json.loads\<close> reads back what \<^verbatim>\<open>json.dump\<close> writes, and the
  file is absent, blank, undecodable or holds a JSON object,
  \<^verbatim>\<open>set_preferred_location_id\<close> succeeds and \<^verbatim>\<open>get_preferred_location_id\<close> then returns
  the identifier that was set.
\<close>

lemma set_then_get_on_a_record:
  fixes name home dumps loads repr location_id kvs
  defines "os \<equiv> memory_os name home dumps loads repr"
  assumes quiet: "faults (fs s) = []"
    and out: "stdout_error (fs s) = None"
    and held: "stored_record loads (files (fs s) (PREFERENCES_FILE os)) = PDict kvs"
    and codec: "round_trips dumps loads
                  (PDict (AList.update ''preferred_location_id'' (PStr location_id) kvs))"
  shows "fst (set_preferred_location_id os location_id s) = Inr ()
       \<and> fst (get_preferred_location_id os (snd (set_preferred_location_id os location_id s)))
           = Inr (PStr location_id)"
proof -
  let ?updated = "PDict (AList.update ''preferred_location_id'' (PStr location_id) kvs)"
  let ?s' = "snd (set_preferred_location_id os location_id s)"
  from set_memory [OF quiet out, of loads name home dumps repr kvs location_id] held codec
  have r: "fst (set_preferred_location_id os location_id s) = Inr ()"
    and q: "faults (fs ?s') = []"
    and o: "stdout_error (fs ?s') = None"
    and f: "files (fs ?s') (PREFERENCES_FILE os) = Some (dumps ?updated)"
    by (simp_all add: os_def)
  obtain r1 s1 where l: "load_preferences os ?s' = (r1, s1)"
    by (cases "load_preferences os ?s'")
  with codec load_memory_keeps [OF q, of name home dumps loads repr "dumps ?updated" ?updated] f
  have r1: "r1 = Inr ?updated" and k: "fs s1 = fs ?s'"
    by (simp_all add: os_def round_trips_def)
  have "fst (print_line os (''Retrieved preferred location ID: '' @ location_id) s1) = Inr ()"
    using o k by (simp add: print_line_def perform_def os_def memory_os_def)
  with l r1 have "fst (get_preferred_location_id os ?s') = Inr (PStr location_id)"
    by (auto simp: get_preferred_location_id_def py_get_def py_str_def update_conv'
             split: prod.splits sum.splits)
  with r show ?thesis by blast
qed

text \<open>
  C5 fails on the code for a file that holds a JSON value that is not an object. The
  disk does not fail and the JSON module reads back what it writes, yet line 187 raises
  a \<^verbatim>\<open>TypeError\<close> on the list loaded from \<^verbatim>\<open>[]\<close>, nothing is saved, and
  \<^verbatim>\<open>get_preferred_location_id\<close> then raises an \<^verbatim>\<open>AttributeError\<close>.
\<close>

theorem non_object_file_crashes:
  "faults (fs (disk_with (Some ''[]'') [])) = []
   \<and> round_trips (table_dumps documents) (table_loads documents) (PList [])
   \<and> round_trips (table_dumps documents) (table_loads documents) store_123
   \<and> fst (set_preferred_location_id posix ''123'' (disk_with (Some ''[]'') []))
       = Inl (Exn TypeError ''list indices must be integers or slices, not str'')
   \<and> files (fs (snd (set_preferred_location_id posix ''123'' (disk_with (Some ''[]'') []))))
        prefs_path = Some ''[]''
   \<and> fst (get_preferred_location_id posix
            (snd (set_preferred_location_id posix ''123'' (disk_with (Some ''[]'') []))))
       = Inl (Exn AttributeError
                (quoted ''list'' @ '' object has no attribute '' @ quoted ''get''))"
  by (simp add: round_trips_def set_preferred_location_id_def get_preferred_location_id_def
        concrete_runs)

end
